theory Spec2Isabelle
  imports Main "HOL-Library.Product_Lexorder"
begin

section \<open>Syntax (syntax.py)\<close>

text \<open>
  The objects of \<^verbatim>\<open>syntax.py\<close>: the frozen dataclasses of terms and formulas, and
  references to metavariables. Python is dynamically typed, and every function of the
  module ends in a catch-all case, so one datatype holds terms, formulas and
  metavariables alike; the discriminators (\<open>is_Not\<close>, ...) are the \<^verbatim>\<open>isinstance\<close>
  tests and the selectors are the fields of the classes. A \<^verbatim>\<open>Metavar\<close> is a mutable object; \<open>MV i\<close> is the reference
  to the metavariable with id \<open>i\<close>, whose fields live in a store (see below).
  The class \<^verbatim>\<open>Not\<close> is the constructor \<open>NotF\<close>, since \<open>Not\<close> is HOL's negation.
\<close>

datatype obj =
    is_Bot: Bot
  | is_Not: NotF (inner: obj)
  | is_And: And (left: obj) (right: obj)
  | is_Or: Or (left: obj) (right: obj)
  | is_Imp: Imp (left: obj) (right: obj)
  | is_Iff: Iff (left: obj) (right: obj)
  | is_Func: Func (name: string) (args: "obj list")
  | is_Var: Var (name: string)
  | is_Pred: Pred (name: string) (args: "obj list")
  | is_Eq: Eq (left: obj) (right: obj)
  | is_Forall: Forall (var: obj) (inner: obj)
  | is_Exists: Exists (var: obj) (inner: obj)
  | is_Box: Box (inner: obj)
  | is_Dia: Dia (inner: obj)
  | is_Metavar: MV (mv_id: nat)

fun is_tfl_formula :: "obj \<Rightarrow> bool" where
  "is_tfl_formula (Pred _ ts) = (ts = [])"
| "is_tfl_formula Bot = True"
| "is_tfl_formula (NotF a) = is_tfl_formula a"
| "is_tfl_formula (And a b) = (is_tfl_formula a \<and> is_tfl_formula b)"
| "is_tfl_formula (Or a b) = (is_tfl_formula a \<and> is_tfl_formula b)"
| "is_tfl_formula (Imp a b) = (is_tfl_formula a \<and> is_tfl_formula b)"
| "is_tfl_formula (Iff a b) = (is_tfl_formula a \<and> is_tfl_formula b)"
| "is_tfl_formula _ = False"

fun is_fol_formula :: "obj \<Rightarrow> bool" where
  "is_fol_formula Bot = True"
| "is_fol_formula (Pred _ _) = True"
| "is_fol_formula (Eq _ _) = True"
| "is_fol_formula (NotF a) = is_fol_formula a"
| "is_fol_formula (Forall _ a) = is_fol_formula a"
| "is_fol_formula (Exists _ a) = is_fol_formula a"
| "is_fol_formula (And a b) = (is_fol_formula a \<and> is_fol_formula b)"
| "is_fol_formula (Or a b) = (is_fol_formula a \<and> is_fol_formula b)"
| "is_fol_formula (Imp a b) = (is_fol_formula a \<and> is_fol_formula b)"
| "is_fol_formula (Iff a b) = (is_fol_formula a \<and> is_fol_formula b)"
| "is_fol_formula _ = False"

fun is_ml_formula :: "obj \<Rightarrow> bool" where
  "is_ml_formula (Pred _ ts) = (ts = [])"
| "is_ml_formula Bot = True"
| "is_ml_formula (NotF a) = is_ml_formula a"
| "is_ml_formula (Box a) = is_ml_formula a"
| "is_ml_formula (Dia a) = is_ml_formula a"
| "is_ml_formula (And a b) = (is_ml_formula a \<and> is_ml_formula b)"
| "is_ml_formula (Or a b) = (is_ml_formula a \<and> is_ml_formula b)"
| "is_ml_formula (Imp a b) = (is_ml_formula a \<and> is_ml_formula b)"
| "is_ml_formula (Iff a b) = (is_ml_formula a \<and> is_ml_formula b)"
| "is_ml_formula _ = False"

text \<open>
  \<^verbatim>\<open>atomic_terms(formula, free)\<close>: the constants and variables of a formula or term;
  with \<open>free\<close>, a quantifier removes its bound variable.
\<close>

fun atomic_terms :: "obj \<Rightarrow> bool \<Rightarrow> obj set" where
  "atomic_terms Bot free = {}"
| "atomic_terms (NotF a) free = atomic_terms a free"
| "atomic_terms (Box a) free = atomic_terms a free"
| "atomic_terms (Dia a) free = atomic_terms a free"
| "atomic_terms (And a b) free = atomic_terms a free \<union> atomic_terms b free"
| "atomic_terms (Or a b) free = atomic_terms a free \<union> atomic_terms b free"
| "atomic_terms (Imp a b) free = atomic_terms a free \<union> atomic_terms b free"
| "atomic_terms (Iff a b) free = atomic_terms a free \<union> atomic_terms b free"
| "atomic_terms (Eq a b) free = atomic_terms a free \<union> atomic_terms b free"
| "atomic_terms (Func s ts) free =
     (if ts = [] then {Func s ts}
      else (\<Union>t \<in> set ts. atomic_terms t free))"
| "atomic_terms (Var s) free = {Var s}"
| "atomic_terms (Pred s ts) free = (\<Union>t \<in> set ts. atomic_terms t free)"
| "atomic_terms (Forall v a) free = atomic_terms a free - (if free then {v} else {})"
| "atomic_terms (Exists v a) free = atomic_terms a free - (if free then {v} else {})"
| "atomic_terms (MV _) free = {}"

definition constants :: "obj \<Rightarrow> obj set" where
  "constants formula = {t \<in> atomic_terms formula False. is_Func t}"

definition free_vars :: "obj \<Rightarrow> obj set" where
  "free_vars formula = {t \<in> atomic_terms formula True. is_Var t}"

definition is_fol_sentence :: "obj \<Rightarrow> bool" where
  "is_fol_sentence formula = (is_fol_formula formula \<and> free_vars formula = {})"


text \<open>
  \<^verbatim>\<open>sub_term(formula, term, gen, ignore)\<close>. The generator \<^verbatim>\<open>gen\<close> is a Python callable
  that may return something new at every call: it is a function from its own state
  \<open>'g\<close> to the object returned and the next state, and \<open>sub_term\<close> threads that state
  through the traversal in the order of the source (left before right, the arguments
  of a function or predicate first to last). The comparisons \<^verbatim>\<open>f == term\<close> and
  \<^verbatim>\<open>v == term\<close> are those of the frozen dataclasses: structural equality.
\<close>

fun sub_term :: "obj \<Rightarrow> obj \<Rightarrow> ('g \<Rightarrow> obj \<times> 'g) \<Rightarrow> (obj \<Rightarrow> bool) \<Rightarrow> 'g \<Rightarrow> obj \<times> 'g"
  and sub_term_args :: "obj list \<Rightarrow> obj \<Rightarrow> ('g \<Rightarrow> obj \<times> 'g) \<Rightarrow> (obj \<Rightarrow> bool) \<Rightarrow> 'g \<Rightarrow> obj list \<times> 'g"
where
  "sub_term Bot t gen ignore g = (Bot, g)"
| "sub_term (NotF a) t gen ignore g =
     (let (a', g1) = sub_term a t gen ignore g in (NotF a', g1))"
| "sub_term (Box a) t gen ignore g =
     (let (a', g1) = sub_term a t gen ignore g in (Box a', g1))"
| "sub_term (Dia a) t gen ignore g =
     (let (a', g1) = sub_term a t gen ignore g in (Dia a', g1))"
| "sub_term (And a b) t gen ignore g =
     (let (a', g1) = sub_term a t gen ignore g;
          (b', g2) = sub_term b t gen ignore g1
      in (And a' b', g2))"
| "sub_term (Or a b) t gen ignore g =
     (let (a', g1) = sub_term a t gen ignore g;
          (b', g2) = sub_term b t gen ignore g1
      in (Or a' b', g2))"
| "sub_term (Imp a b) t gen ignore g =
     (let (a', g1) = sub_term a t gen ignore g;
          (b', g2) = sub_term b t gen ignore g1
      in (Imp a' b', g2))"
| "sub_term (Iff a b) t gen ignore g =
     (let (a', g1) = sub_term a t gen ignore g;
          (b', g2) = sub_term b t gen ignore g1
      in (Iff a' b', g2))"
| "sub_term (Eq a b) t gen ignore g =
     (let (a', g1) = sub_term a t gen ignore g;
          (b', g2) = sub_term b t gen ignore g1
      in (Eq a' b', g2))"
| "sub_term (Func s ts) t gen ignore g =
     (if Func s ts = t then gen g
      else let (ts', g1) = sub_term_args ts t gen ignore g in (Func s ts', g1))"
| "sub_term (Var s) t gen ignore g = (if Var s = t then gen g else (Var s, g))"
| "sub_term (Pred s ts) t gen ignore g =
     (let (ts', g1) = sub_term_args ts t gen ignore g in (Pred s ts', g1))"
| "sub_term (Forall v a) t gen ignore g =
     (if \<not> (v = t \<or> ignore v)
      then let (a', g1) = sub_term a t gen ignore g in (Forall v a', g1)
      else (Forall v a, g))"
| "sub_term (Exists v a) t gen ignore g =
     (if \<not> (v = t \<or> ignore v)
      then let (a', g1) = sub_term a t gen ignore g in (Exists v a', g1)
      else (Exists v a, g))"
| "sub_term (MV i) t gen ignore g = (MV i, g)"
| "sub_term_args [] t gen ignore g = ([], g)"
| "sub_term_args (x # xs) t gen ignore g =
     (let (x', g1) = sub_term x t gen ignore g;
          (xs', g2) = sub_term_args xs t gen ignore g1
      in (x' # xs', g2))"


section \<open>Metavariables and unification (syntax.py)\<close>

text \<open>
  A \<^verbatim>\<open>Metavar\<close> has the fields \<^verbatim>\<open>id\<close>, \<^verbatim>\<open>domain\<close> and \<^verbatim>\<open>value\<close>. The store maps
  the id of each metavariable to its two other fields; \<open>mv_value = None\<close> is Python's
  \<^verbatim>\<open>value is None\<close>. The domain is a list or tuple of objects, \<open>[]\<close> for \<^verbatim>\<open>None\<close> or an
  empty one (both are falsy).
\<close>

record metavar =
  mv_domain :: "obj list"
  mv_value :: "obj option"

type_synonym store = "nat \<Rightarrow> metavar"

text \<open>
  Python's \<^verbatim>\<open>a == b\<close> on these objects. \<^verbatim>\<open>Metavar.__eq__\<close> is written in the source.
  The \<^verbatim>\<open>__eq__\<close> the dataclass decorator generates returns \<^verbatim>\<open>NotImplemented\<close> for an
  object of another class, so Python then tries the reflected \<^verbatim>\<open>b.__eq__(a)\<close>, which
  is \<^verbatim>\<open>Metavar.__eq__\<close> when \<open>b\<close> is a metavariable and fails otherwise; for the same
  class it compares the tuples of the fields. \<open>eq_fields\<close> gives the object fields to
  compare (the names of \<^verbatim>\<open>Func\<close>, \<^verbatim>\<open>Pred\<close> and \<^verbatim>\<open>Var\<close> are strings and are compared
  first).
\<close>

definition eq_fields :: "obj \<Rightarrow> obj \<Rightarrow> (obj list \<times> obj list) option" where
  "eq_fields self other =
     (case self of
        Bot \<Rightarrow> (case other of Bot \<Rightarrow> Some ([], []) | _ \<Rightarrow> None)
      | NotF a \<Rightarrow> (case other of NotF b \<Rightarrow> Some ([a], [b]) | _ \<Rightarrow> None)
      | And a1 a2 \<Rightarrow> (case other of And b1 b2 \<Rightarrow> Some ([a1, a2], [b1, b2]) | _ \<Rightarrow> None)
      | Or a1 a2 \<Rightarrow> (case other of Or b1 b2 \<Rightarrow> Some ([a1, a2], [b1, b2]) | _ \<Rightarrow> None)
      | Imp a1 a2 \<Rightarrow> (case other of Imp b1 b2 \<Rightarrow> Some ([a1, a2], [b1, b2]) | _ \<Rightarrow> None)
      | Iff a1 a2 \<Rightarrow> (case other of Iff b1 b2 \<Rightarrow> Some ([a1, a2], [b1, b2]) | _ \<Rightarrow> None)
      | Func s ts \<Rightarrow>
          (case other of Func s' ts' \<Rightarrow> if s = s' then Some (ts, ts') else None
           | _ \<Rightarrow> None)
      | Var s \<Rightarrow> (case other of Var s' \<Rightarrow> if s = s' then Some ([], []) else None | _ \<Rightarrow> None)
      | Pred s ts \<Rightarrow>
          (case other of Pred s' ts' \<Rightarrow> if s = s' then Some (ts, ts') else None
           | _ \<Rightarrow> None)
      | Eq a1 a2 \<Rightarrow> (case other of Eq b1 b2 \<Rightarrow> Some ([a1, a2], [b1, b2]) | _ \<Rightarrow> None)
      | Forall v a \<Rightarrow> (case other of Forall w b \<Rightarrow> Some ([v, a], [w, b]) | _ \<Rightarrow> None)
      | Exists v a \<Rightarrow> (case other of Exists w b \<Rightarrow> Some ([v, a], [w, b]) | _ \<Rightarrow> None)
      | Box a \<Rightarrow> (case other of Box b \<Rightarrow> Some ([a], [b]) | _ \<Rightarrow> None)
      | Dia a \<Rightarrow> (case other of Dia b \<Rightarrow> Some ([a], [b]) | _ \<Rightarrow> None)
      | MV i \<Rightarrow> None)"

text \<open>
  \<open>Metavar_eq\<close> is \<^verbatim>\<open>Metavar.__eq__\<close>, \<open>py_eq\<close> is \<^verbatim>\<open>==\<close>, \<open>tuple_eq\<close> is the comparison
  of two tuples (through the common prefix, skipping a pair that is one and the same
  metavariable object, the lengths last), and \<open>contains n domain x\<close> is \<^verbatim>\<open>x in domain\<close>:
  Python compares each item with \<^verbatim>\<open>item is x or item == x\<close> until one is equal, so the
  membership test of \<^verbatim>\<open>Metavar.__eq__\<close> and \<^verbatim>\<open>Metavar._unify\<close> itself runs \<^verbatim>\<open>==\<close> and
  may bind metavariables. A bound metavariable delegates to its value, which may again
  hold metavariables, so the recursion is bounded by a depth \<open>n\<close> as Python's is by
  its recursion limit: \<open>None\<close> is \<^verbatim>\<open>RecursionError\<close>.
\<close>

function (sequential) Metavar_eq :: "nat \<Rightarrow> nat \<Rightarrow> obj \<Rightarrow> store \<Rightarrow> (bool \<times> store) option"
  and py_eq :: "nat \<Rightarrow> obj \<Rightarrow> obj \<Rightarrow> store \<Rightarrow> (bool \<times> store) option"
  and tuple_eq :: "nat \<Rightarrow> obj list \<Rightarrow> obj list \<Rightarrow> store \<Rightarrow> (bool \<times> store) option"
  and contains :: "nat \<Rightarrow> obj list \<Rightarrow> obj \<Rightarrow> store \<Rightarrow> (bool \<times> store) option"
where
  "Metavar_eq n i other h =
     (case (if mv_domain (h i) = [] then Some (True, h)
            else contains n (mv_domain (h i)) other h) of
        None \<Rightarrow> None
      | Some (False, h1) \<Rightarrow> Some (False, h1)
      | Some (True, h1) \<Rightarrow>
          (case mv_value (h1 i) of
             None \<Rightarrow> Some (True, h1(i := (h1 i)\<lparr>mv_value := Some other\<rparr>))
           | Some v \<Rightarrow> py_eq n v other h1))"
| "py_eq 0 a b h = None"
| "py_eq (Suc n) a b h =
     (if is_Metavar a then Metavar_eq n (mv_id a) b h
      else if is_Metavar b then Metavar_eq n (mv_id b) a h
      else (case eq_fields a b of
              None \<Rightarrow> Some (False, h)
            | Some (xs, ys) \<Rightarrow> tuple_eq n xs ys h))"
| "tuple_eq n [] [] h = Some (True, h)"
| "tuple_eq n (x # xs) (y # ys) h =
     (if is_Metavar x \<and> x = y then tuple_eq n xs ys h
      else (case py_eq n x y h of
              None \<Rightarrow> None
            | Some (True, h') \<Rightarrow> tuple_eq n xs ys h'
            | Some (False, h') \<Rightarrow> Some (False, h')))"
| "tuple_eq n _ _ h = Some (False, h)"
| "contains n [] x h = Some (False, h)"
| "contains n (item # rest) x h =
     (if is_Metavar item \<and> item = x then Some (True, h)
      else (case py_eq n item x h of
              None \<Rightarrow> None
            | Some (True, h') \<Rightarrow> Some (True, h')
            | Some (False, h') \<Rightarrow> contains n rest x h'))"
  by pat_completeness auto
termination
  by (relation "inv_image (less_than <*lex*> less_than)
        (\<lambda>x. case x of
                  Inl (Inl (n, i, other, h)) \<Rightarrow> (n, Suc (Suc (length (mv_domain (h i)))))
                | Inl (Inr (n, a, b, h)) \<Rightarrow> (n, 0)
                | Inr (Inl (n, xs, ys, h)) \<Rightarrow> (n, Suc (length xs))
                | Inr (Inr (n, xs, x, h)) \<Rightarrow> (n, Suc (length xs)))") auto

text \<open>
  The first statement of \<^verbatim>\<open>Metavar.__eq__\<close> and of \<^verbatim>\<open>Metavar._unify\<close>,
  \<^verbatim>\<open>if self.domain and other not in self.domain: return False\<close>: the result is whether
  the method goes on, with the store the membership test leaves.
\<close>

definition accepts :: "nat \<Rightarrow> nat \<Rightarrow> obj \<Rightarrow> store \<Rightarrow> (bool \<times> store) option" where
  "accepts n i other h =
     (if mv_domain (h i) = [] then Some (True, h)
      else contains n (mv_domain (h i)) other h)"





text \<open>An object without metavariables, and a store whose domains hold such objects.\<close>

fun ground :: "obj \<Rightarrow> bool" where
  "ground (MV i) = False"
| "ground (NotF a) = ground a"
| "ground (Box a) = ground a"
| "ground (Dia a) = ground a"
| "ground (And a b) = (ground a \<and> ground b)"
| "ground (Or a b) = (ground a \<and> ground b)"
| "ground (Imp a b) = (ground a \<and> ground b)"
| "ground (Iff a b) = (ground a \<and> ground b)"
| "ground (Eq a b) = (ground a \<and> ground b)"
| "ground (Forall a b) = (ground a \<and> ground b)"
| "ground (Exists a b) = (ground a \<and> ground b)"
| "ground (Func s ts) = list_all ground ts"
| "ground (Pred s ts) = list_all ground ts"
| "ground _ = True"


text \<open>
  Stores for the examples, no metavariable with a value: no domains; the domain
  \<open>[\<not>?m2]\<close> for \<open>?m1\<close>; the domain \<open>[\<bottom>, \<not>\<bottom>]\<close> for \<open>?m0\<close>; the domain
  \<open>[f(?m2, a), f(b, c)]\<close> for \<open>?m0\<close>; the domain \<open>[P, \<not>P]\<close> for \<open>?m0\<close>.
\<close>

definition h0 :: store where
  "h0 = (\<lambda>_. \<lparr>mv_domain = [], mv_value = None\<rparr>)"


definition h0_dom :: store where
  "h0_dom = h0(0 := \<lparr>mv_domain = [Bot, NotF Bot], mv_value = None\<rparr>)"

definition h2_dom :: store where
  "h2_dom = h0(0 := \<lparr>mv_domain = [Func ''f'' [MV 2, Func ''a'' []],
                                    Func ''f'' [Func ''b'' [], Func ''c'' []]],
                     mv_value = None\<rparr>)"



section \<open>Verified parsing (cli.py)\<close>

datatype logic = TFL | FOL | MLK | MLT | MLS4 | MLS5 | FOMLK | FOMLT | FOMLS4 | FOMLS5

text \<open>
  \<^verbatim>\<open>ParsingError\<close>. The error raised by \<^verbatim>\<open>parse_and_verify_formula\<close> carries the
  message \<^verbatim>\<open>"<f>" is not a well-formed <logic> formula.\<close>; the model keeps the
  formula and the logic the message is built from. \<open>SyntaxFailure\<close> stands for an
  error raised by the parser itself.
\<close>

datatype parsing_error = SyntaxFailure string | NotWellFormed obj logic

text \<open>
  \<^verbatim>\<open>parse_and_verify_formula(f, logic)\<close>. The parser (\<^verbatim>\<open>parser.py\<close>) is a parameter:
  \<open>parse_formula s\<close> is the formula parsed from \<open>s\<close>, or the parser's error.
\<close>

definition parse_and_verify_formula ::
  "(string \<Rightarrow> parsing_error + obj) \<Rightarrow> string \<Rightarrow> logic \<Rightarrow> parsing_error + obj" where
  "parse_and_verify_formula parse_formula s logic =
     (case parse_formula s of
        Inl e \<Rightarrow> Inl e
      | Inr f \<Rightarrow>
          if logic = TFL \<and> is_tfl_formula f then Inr f
          else if logic = FOL \<and> is_fol_formula f then Inr f
          else if logic \<in> {MLK, MLT, MLS4, MLS5} \<and> is_ml_formula f then Inr f
          else if logic \<in> {FOMLK, FOMLT, FOMLS4, FOMLS5} then Inr f
          else Inl (NotWellFormed f logic))"

text \<open>
  The well-formedness predicate the specification attaches to each logic:
  \<open>is_tfl_formula\<close> for TFL; for FOL, \<open>is_fol_formula\<close> and no free variable (a
  sentence); \<open>is_ml_formula\<close> for the propositional modal logics; for the first-order
  modal logics the union of the quantifier and the modal fragment.
\<close>

fun spec_is_foml_formula :: "obj \<Rightarrow> bool" where
  "spec_is_foml_formula Bot = True"
| "spec_is_foml_formula (Pred _ _) = True"
| "spec_is_foml_formula (Eq _ _) = True"
| "spec_is_foml_formula (NotF a) = spec_is_foml_formula a"
| "spec_is_foml_formula (Forall _ a) = spec_is_foml_formula a"
| "spec_is_foml_formula (Exists _ a) = spec_is_foml_formula a"
| "spec_is_foml_formula (Box a) = spec_is_foml_formula a"
| "spec_is_foml_formula (Dia a) = spec_is_foml_formula a"
| "spec_is_foml_formula (And a b) = (spec_is_foml_formula a \<and> spec_is_foml_formula b)"
| "spec_is_foml_formula (Or a b) = (spec_is_foml_formula a \<and> spec_is_foml_formula b)"
| "spec_is_foml_formula (Imp a b) = (spec_is_foml_formula a \<and> spec_is_foml_formula b)"
| "spec_is_foml_formula (Iff a b) = (spec_is_foml_formula a \<and> spec_is_foml_formula b)"
| "spec_is_foml_formula _ = False"

fun spec_well_formed :: "logic \<Rightarrow> obj \<Rightarrow> bool" where
  "spec_well_formed TFL f = is_tfl_formula f"
| "spec_well_formed FOL f = is_fol_sentence f"
| "spec_well_formed MLK f = is_ml_formula f"
| "spec_well_formed MLT f = is_ml_formula f"
| "spec_well_formed MLS4 f = is_ml_formula f"
| "spec_well_formed MLS5 f = is_ml_formula f"
| "spec_well_formed _ f = spec_is_foml_formula f"

text \<open>What the code checks: the guard of each branch of \<^verbatim>\<open>parse_and_verify_formula\<close>.\<close>

fun accepted :: "logic \<Rightarrow> obj \<Rightarrow> bool" where
  "accepted TFL f = is_tfl_formula f"
| "accepted FOL f = is_fol_formula f"
| "accepted MLK f = is_ml_formula f"
| "accepted MLT f = is_ml_formula f"
| "accepted MLS4 f = is_ml_formula f"
| "accepted MLS5 f = is_ml_formula f"
| "accepted _ f = True"



section \<open>Substitution as the specification words it\<close>

text \<open>
  The occurrences of the target that \<^verbatim>\<open>sub_term\<close> is to replace, counted: the
  occurrences of \<open>t\<close> as a term that lie neither below a quantifier that binds \<open>t\<close>
  nor below a quantifier whose variable satisfies \<open>ignore\<close>.
\<close>

fun spec_occurrences :: "obj \<Rightarrow> (obj \<Rightarrow> bool) \<Rightarrow> obj \<Rightarrow> nat" where
  "spec_occurrences t ignore (Var s) = (if Var s = t then 1 else 0)"
| "spec_occurrences t ignore (Func s ts) =
     (if Func s ts = t then 1 else sum_list (map (spec_occurrences t ignore) ts))"
| "spec_occurrences t ignore (Pred s ts) = sum_list (map (spec_occurrences t ignore) ts)"
| "spec_occurrences t ignore (Forall v a) =
     (if v = t \<or> ignore v then 0 else spec_occurrences t ignore a)"
| "spec_occurrences t ignore (Exists v a) =
     (if v = t \<or> ignore v then 0 else spec_occurrences t ignore a)"
| "spec_occurrences t ignore (NotF a) = spec_occurrences t ignore a"
| "spec_occurrences t ignore (Box a) = spec_occurrences t ignore a"
| "spec_occurrences t ignore (Dia a) = spec_occurrences t ignore a"
| "spec_occurrences t ignore (And a b) = spec_occurrences t ignore a + spec_occurrences t ignore b"
| "spec_occurrences t ignore (Or a b) = spec_occurrences t ignore a + spec_occurrences t ignore b"
| "spec_occurrences t ignore (Imp a b) = spec_occurrences t ignore a + spec_occurrences t ignore b"
| "spec_occurrences t ignore (Iff a b) = spec_occurrences t ignore a + spec_occurrences t ignore b"
| "spec_occurrences t ignore (Eq a b) = spec_occurrences t ignore a + spec_occurrences t ignore b"
| "spec_occurrences t ignore _ = 0"

text \<open>
  The formula in which the occurrences counted by \<open>spec_occurrences\<close> are replaced,
  from left to right, by \<open>r k\<close>, \<open>r (k + 1)\<close>, ...; everything else stays.
\<close>

fun spec_replace :: "obj \<Rightarrow> (obj \<Rightarrow> bool) \<Rightarrow> (nat \<Rightarrow> obj) \<Rightarrow> nat \<Rightarrow> obj \<Rightarrow> obj"
  and spec_replace_args :: "obj \<Rightarrow> (obj \<Rightarrow> bool) \<Rightarrow> (nat \<Rightarrow> obj) \<Rightarrow> nat \<Rightarrow> obj list \<Rightarrow> obj list"
where
  "spec_replace t ignore r k (Var s) = (if Var s = t then r k else Var s)"
| "spec_replace t ignore r k (Func s ts) =
     (if Func s ts = t then r k else Func s (spec_replace_args t ignore r k ts))"
| "spec_replace t ignore r k (Pred s ts) = Pred s (spec_replace_args t ignore r k ts)"
| "spec_replace t ignore r k (Forall v a) =
     (if v = t \<or> ignore v then Forall v a else Forall v (spec_replace t ignore r k a))"
| "spec_replace t ignore r k (Exists v a) =
     (if v = t \<or> ignore v then Exists v a else Exists v (spec_replace t ignore r k a))"
| "spec_replace t ignore r k (NotF a) = NotF (spec_replace t ignore r k a)"
| "spec_replace t ignore r k (Box a) = Box (spec_replace t ignore r k a)"
| "spec_replace t ignore r k (Dia a) = Dia (spec_replace t ignore r k a)"
| "spec_replace t ignore r k (And a b) =
     And (spec_replace t ignore r k a) (spec_replace t ignore r (k + spec_occurrences t ignore a) b)"
| "spec_replace t ignore r k (Or a b) =
     Or (spec_replace t ignore r k a) (spec_replace t ignore r (k + spec_occurrences t ignore a) b)"
| "spec_replace t ignore r k (Imp a b) =
     Imp (spec_replace t ignore r k a) (spec_replace t ignore r (k + spec_occurrences t ignore a) b)"
| "spec_replace t ignore r k (Iff a b) =
     Iff (spec_replace t ignore r k a) (spec_replace t ignore r (k + spec_occurrences t ignore a) b)"
| "spec_replace t ignore r k (Eq a b) =
     Eq (spec_replace t ignore r k a) (spec_replace t ignore r (k + spec_occurrences t ignore a) b)"
| "spec_replace t ignore r k Bot = Bot"
| "spec_replace t ignore r k (MV i) = MV i"
| "spec_replace_args t ignore r k [] = []"
| "spec_replace_args t ignore r k (x # xs) =
     spec_replace t ignore r k x # spec_replace_args t ignore r (k + spec_occurrences t ignore x) xs"

text \<open>
  The state of a generator after \<open>k\<close> calls, and the object its call number \<open>k\<close>
  (counted from 0) returns.
\<close>

definition gen_state :: "('g \<Rightarrow> obj \<times> 'g) \<Rightarrow> 'g \<Rightarrow> nat \<Rightarrow> 'g" where
  "gen_state gen g k = ((\<lambda>g. snd (gen g)) ^^ k) g"

definition gen_result :: "('g \<Rightarrow> obj \<times> 'g) \<Rightarrow> 'g \<Rightarrow> nat \<Rightarrow> obj" where
  "gen_result gen g k = fst (gen (gen_state gen g k))"



text \<open>The targets of the claim: a variable or a constant (a 0-ary \<^verbatim>\<open>Func\<close>).\<close>

fun is_atomic_term :: "obj \<Rightarrow> bool" where
  "is_atomic_term (Var _) = True"
| "is_atomic_term (Func _ ts) = (ts = [])"
| "is_atomic_term _ = False"

text \<open>
  Every quantifier binds a variable (the field is declared \<^verbatim>\<open>var: Var\<close>), so that
  \<^verbatim>\<open>v == term\<close> compares two terms.
\<close>

fun binds_variables :: "obj \<Rightarrow> bool" where
  "binds_variables (Forall v a) = (is_Var v \<and> binds_variables a)"
| "binds_variables (Exists v a) = (is_Var v \<and> binds_variables a)"
| "binds_variables (NotF a) = binds_variables a"
| "binds_variables (Box a) = binds_variables a"
| "binds_variables (Dia a) = binds_variables a"
| "binds_variables (And a b) = (binds_variables a \<and> binds_variables b)"
| "binds_variables (Or a b) = (binds_variables a \<and> binds_variables b)"
| "binds_variables (Imp a b) = (binds_variables a \<and> binds_variables b)"
| "binds_variables (Iff a b) = (binds_variables a \<and> binds_variables b)"
| "binds_variables _ = True"

text \<open>A generator for the examples: it returns the constants \<open>c0\<close>, \<open>c1\<close>, ... in turn.\<close>

definition fresh_constant :: "nat \<Rightarrow> obj \<times> nat" where
  "fresh_constant k = (Func (''c'' @ replicate k (CHR ''i'')) [], Suc k)"

section \<open>Proof objects of the prover (prover.py)\<close>

text \<open>
  The rule names the prover writes on its lines (strings in the source).
\<close>

datatype rule = Rule_PR | Rule_AS | Rule_R | Rule_X | Rule_NotE | Rule_AndE | Rule_ImpE
  | Rule_IffE | Rule_OrE | Rule_NotI | Rule_AndI | Rule_OrI | Rule_ImpI | Rule_IffI | Rule_IP

text \<open>
  \<^verbatim>\<open>_Line\<close> and \<^verbatim>\<open>_Proof\<close>, both with the \<^verbatim>\<open>id\<close> of \<^verbatim>\<open>_ProofObject\<close>. A citation is
  the id of the cited object.
\<close>

datatype pobj =
    Line (oid: nat) (formula: obj) (rule: rule) (citations: "nat list")
  | Proof (oid: nat) (seq: "pobj list") (goal: obj)

fun is_line :: "pobj \<Rightarrow> bool" where
  "is_line (Line _ _ _ _) = True"
| "is_line (Proof _ _ _) = False"

fun is_subproof :: "pobj \<Rightarrow> bool" where
  "is_subproof (Line _ _ _ _) = False"
| "is_subproof (Proof _ _ _) = True"

definition is_assumption :: "pobj \<Rightarrow> bool" where
  "is_assumption l = (rule l \<in> {Rule_PR, Rule_AS})"

text \<open>
  The attributes \<^verbatim>\<open>formulas\<close>, \<^verbatim>\<open>assumptions\<close>, \<^verbatim>\<open>line_count\<close> and \<^verbatim>\<open>ip_count\<close> of a
  \<^verbatim>\<open>_Proof\<close>, as \<^verbatim>\<open>init\<close> computes them from the sequence (\<^verbatim>\<open>add\<close> keeps them up to
  date). The assumptions are kept in the order of the sequence; the source collects
  them in a set.
\<close>

definition formulas :: "pobj \<Rightarrow> obj set" where
  "formulas p = set [formula ob. ob \<leftarrow> seq p, is_line ob]"

definition assumptions :: "pobj \<Rightarrow> obj list" where
  "assumptions p = [formula ob. ob \<leftarrow> seq p, is_line ob \<and> is_assumption ob]"

fun line_count :: "pobj \<Rightarrow> nat" where
  "line_count (Line _ _ _ _) = 1"
| "line_count (Proof _ s _) = sum_list (map line_count s)"

fun ip_count :: "pobj \<Rightarrow> nat" where
  "ip_count (Line _ _ r _) = (if r = Rule_IP then 1 else 0)"
| "ip_count (Proof _ s _) = sum_list (map ip_count s)"

text \<open>
  \<^verbatim>\<open>Prover._enter_state\<close>. The memo table \<^verbatim>\<open>seen\<close> is a dictionary from
  \<^verbatim>\<open>(frozenset(proof.assumptions), proof.goal)\<close> to \<^verbatim>\<open>(cost, formulas)\<close>; Python
  compares the cost pairs lexicographically, as \<open>\<le>\<close> on pairs does here.
\<close>

type_synonym cost = "nat \<times> nat"
type_synonym memo = "(obj set \<times> obj) \<rightharpoonup> (cost \<times> obj set)"

definition enter_state :: "pobj \<Rightarrow> memo \<Rightarrow> bool \<times> memo" where
  "enter_state proof seen =
     (let key = (set (assumptions proof), goal proof);
          cost = (ip_count proof, line_count proof);
          fs = formulas proof
      in case seen key of
           None \<Rightarrow> (True, seen(key \<mapsto> (cost, fs)))
         | Some (prev_cost, prev_formulas) \<Rightarrow>
             if cost \<ge> prev_cost \<and> fs \<subseteq> prev_formulas then (False, seen)
             else
               let cost' = (if cost > prev_cost then prev_cost else cost);
                   fs' = (if fs \<subset> prev_formulas then prev_formulas else fs)
               in (True, seen(key \<mapsto> (cost', fs'))))"


section \<open>Theorems: verified parsing\<close>

text \<open>
  C2 (as stated, refuted). The claim: \<^verbatim>\<open>parse_and_verify_formula(s, L)\<close> raises
  \<^verbatim>\<open>ParsingError\<close> exactly when the parsed formula is not a well-formed L-formula,
  and for FOL it rejects formulas with free variables. The formula \<open>F(x)\<close> has the
  free variable \<open>x\<close>, so it is no FOL sentence, and the code returns it for FOL.
\<close>

theorem parse_and_verify_formula_fol_free_var_accepted:
  "parse_and_verify_formula (\<lambda>s. Inr (Pred ''F'' [Var ''x''])) ''F(x)'' FOL
     = Inr (Pred ''F'' [Var ''x''])
   \<and> free_vars (Pred ''F'' [Var ''x'']) = {Var ''x''}
   \<and> \<not> spec_well_formed FOL (Pred ''F'' [Var ''x''])"
  by (auto simp add: parse_and_verify_formula_def free_vars_def is_fol_sentence_def)

text \<open>
  C2 (amended). For a string that parses to \<open>f\<close>, \<^verbatim>\<open>parse_and_verify_formula\<close>
  raises \<^verbatim>\<open>ParsingError\<close> (for \<open>f\<close> and the logic) exactly when: the logic is TFL and
  \<open>f\<close> is no TFL formula; or the logic is FOL and \<open>f\<close> is no FOL formula (free
  variables are not looked at); or the logic is one of MLK, MLT, MLS4, MLS5 and \<open>f\<close>
  is no modal formula. For the four first-order modal logics nothing is rejected.
  Otherwise it returns \<open>f\<close>.
\<close>

theorem parse_and_verify_formula_rejects_iff:
  assumes "parse_formula s = Inr f"
  shows "parse_and_verify_formula parse_formula s L =
           (if accepted L f then Inr f else Inl (NotWellFormed f L))"
  using assms by (cases L) (simp_all add: parse_and_verify_formula_def)

theorem parse_and_verify_formula_rejects_iff_witness:
  "parse_and_verify_formula (\<lambda>s. Inr (Box (Pred ''P'' []))) ''[]P'' TFL
     = Inl (NotWellFormed (Box (Pred ''P'' [])) TFL)
   \<and> parse_and_verify_formula (\<lambda>s. Inr (Box (Pred ''P'' []))) ''[]P'' MLK
     = Inr (Box (Pred ''P'' []))
   \<and> parse_and_verify_formula (\<lambda>s. Inr (Box (Pred ''P'' []))) ''[]P'' FOMLK
     = Inr (Box (Pred ''P'' []))"
  using parse_and_verify_formula_rejects_iff
          [of "\<lambda>s. Inr (Box (Pred ''P'' []))" "''[]P''" "Box (Pred ''P'' [])" TFL]
        parse_and_verify_formula_rejects_iff
          [of "\<lambda>s. Inr (Box (Pred ''P'' []))" "''[]P''" "Box (Pred ''P'' [])" MLK]
        parse_and_verify_formula_rejects_iff
          [of "\<lambda>s. Inr (Box (Pred ''P'' []))" "''[]P''" "Box (Pred ''P'' [])" FOMLK]
  by simp


section \<open>Theorems: equality of metavariables\<close>

text \<open>
  On objects without metavariables \<^verbatim>\<open>==\<close> and \<^verbatim>\<open>in\<close> are pure: they leave the store
  as it is and decide structural equality and membership.
\<close>

lemma eq_fields_ground:
  assumes "ground a" "ground b" "eq_fields a b = Some (xs, ys)"
  shows "list_all ground xs \<and> list_all ground ys \<and> (a = b \<longleftrightarrow> xs = ys)"
  using assms by (cases a; cases b) (auto simp add: eq_fields_def split: if_splits)

lemma eq_fields_None:
  assumes "\<not> is_Metavar a" "eq_fields a b = None"
  shows "a \<noteq> b"
  using assms by (cases a; cases b) (auto simp add: eq_fields_def split: if_splits)

lemma ground_not_Metavar: "ground a \<Longrightarrow> \<not> is_Metavar a"
  by (cases a) simp_all

lemma tuple_eq_ground:
  assumes rec: "\<And>a b r h'. ground a \<Longrightarrow> ground b \<Longrightarrow> py_eq n a b h = Some (r, h')
                  \<Longrightarrow> h' = h \<and> r = (a = b)"
  shows "list_all ground xs \<Longrightarrow> list_all ground ys \<Longrightarrow> tuple_eq n xs ys h = Some (r, h')
           \<Longrightarrow> h' = h \<and> r = (xs = ys)"
proof (induction xs arbitrary: ys)
  case Nil
  then show ?case by (cases ys) auto
next
  case (Cons x xs)
  show ?case
  proof (cases ys)
    case Nil
    then show ?thesis using Cons.prems by auto
  next
    case (Cons y ys')
    have g: "ground x" "ground y" "list_all ground xs" "list_all ground ys'"
      using Cons.prems Cons by simp_all
    have nm: "\<not> is_Metavar x" using g(1) by (rule ground_not_Metavar)
    from Cons.prems(3) Cons nm obtain r1 h1 where p: "py_eq n x y h = Some (r1, h1)"
      by (auto split: option.splits)
    have e: "h1 = h" "r1 = (x = y)" using rec[OF g(1) g(2) p] by simp_all
    show ?thesis
    proof (cases r1)
      case True
      then have "tuple_eq n xs ys' h = Some (r, h')" using Cons.prems(3) Cons nm p e by simp
      then have "h' = h \<and> r = (xs = ys')" using Cons.IH g by blast
      then show ?thesis using Cons e True by simp
    next
      case False
      then show ?thesis using Cons.prems(3) Cons nm p e by auto
    qed
  qed
qed

lemma py_eq_ground:
  "ground a \<Longrightarrow> ground b \<Longrightarrow> py_eq n a b h = Some (r, h') \<Longrightarrow> h' = h \<and> r = (a = b)"
proof (induction n arbitrary: a b r h')
  case 0
  then show ?case by simp
next
  case (Suc n)
  have na: "\<not> is_Metavar a" and nb: "\<not> is_Metavar b"
    using Suc.prems ground_not_Metavar by blast+
  show ?case
  proof (cases "eq_fields a b")
    case None
    then show ?thesis using Suc.prems na nb eq_fields_None by auto
  next
    case (Some p)
    obtain xs ys where p: "p = (xs, ys)" by (cases p)
    have t: "tuple_eq n xs ys h = Some (r, h')" using Suc.prems na nb Some p by simp
    have f: "list_all ground xs \<and> list_all ground ys \<and> (a = b \<longleftrightarrow> xs = ys)"
      using eq_fields_ground Suc.prems Some p by blast
    have "h' = h \<and> r = (xs = ys)"
      using tuple_eq_ground[where n=n and h=h, OF Suc.IH] f t by blast
    then show ?thesis using f by simp
  qed
qed

lemma contains_ground:
  "list_all ground xs \<Longrightarrow> ground x \<Longrightarrow> contains n xs x h = Some (r, h')
     \<Longrightarrow> h' = h \<and> r = (x \<in> set xs)"
proof (induction xs)
  case Nil
  then show ?case by auto
next
  case (Cons item rest)
  have g: "ground item" "list_all ground rest" using Cons.prems(1) by simp_all
  have nm: "\<not> is_Metavar item" using g(1) by (rule ground_not_Metavar)
  from Cons.prems(3) nm obtain r1 h1 where p: "py_eq n item x h = Some (r1, h1)"
    by (auto split: option.splits)
  have e: "h1 = h" "r1 = (item = x)" using py_eq_ground[OF g(1) Cons.prems(2) p] by simp_all
  show ?case
  proof (cases r1)
    case True
    then show ?thesis using Cons.prems(3) nm p e by auto
  next
    case False
    then have "contains n rest x h = Some (r, h')" using Cons.prems(3) nm p e by simp
    then have "h' = h \<and> r = (x \<in> set rest)" using Cons.IH g(2) Cons.prems(2) by blast
    then show ?thesis using e False by auto
  qed
qed

lemma accepts_ground:
  assumes "list_all ground (mv_domain (h i))" and "ground x"
    and "accepts n i x h = Some (r, h')"
  shows "h' = h \<and> r = (mv_domain (h i) = [] \<or> x \<in> set (mv_domain (h i)))"
proof (cases "mv_domain (h i) = []")
  case True
  then show ?thesis using assms(3) by (auto simp add: accepts_def)
next
  case False
  then have "contains n (mv_domain (h i)) x h = Some (r, h')"
    using assms(3) by (simp add: accepts_def)
  then show ?thesis using contains_ground[OF assms(1) assms(2)] False by blast
qed

lemma Metavar_eq_accepts:
  "Metavar_eq n i other h =
     (case accepts n i other h of
        None \<Rightarrow> None
      | Some (False, h1) \<Rightarrow> Some (False, h1)
      | Some (True, h1) \<Rightarrow>
          (case mv_value (h1 i) of
             None \<Rightarrow> Some (True, h1(i := (h1 i)\<lparr>mv_value := Some other\<rparr>))
           | Some v \<Rightarrow> py_eq n v other h1))"
  by (simp add: accepts_def)

text \<open>
  C10 (as stated, refuted). The claim: for every metavariable \<open>m\<close> with value \<^verbatim>\<open>None\<close>
  and every object \<open>x\<close> not rejected by the domain of \<open>m\<close>, \<^verbatim>\<open>m == x\<close> assigns
  \<^verbatim>\<open>m.value = x\<close> and returns \<^verbatim>\<open>True\<close>. Let \<open>?m0\<close> be unbound with the domain
  \<open>[\<bottom>, \<not>\<bottom>]\<close> and let \<open>x\<close> be \<open>\<not>?m0\<close>. The membership test \<^verbatim>\<open>x in m.domain\<close> compares
  \<open>\<bottom>\<close> with \<open>x\<close> (unequal) and then \<open>\<not>\<bottom>\<close> with \<open>\<not>?m0\<close>, which compares \<open>\<bottom>\<close> with \<open>?m0\<close>
  and binds \<open>?m0\<close> to \<open>\<bottom>\<close>: the domain does not reject \<open>x\<close>. Then \<open>?m0\<close> has a value, so
  \<^verbatim>\<open>m == x\<close> returns \<^verbatim>\<open>self.value == other\<close>, the comparison of \<open>\<bottom>\<close> with \<open>\<not>?m0\<close>: it
  returns \<^verbatim>\<open>False\<close>, and \<open>?m0\<close> is left bound to \<open>\<bottom>\<close>, not to \<open>x\<close>.
\<close>

theorem Metavar_eq_binds_during_domain_test:
  "mv_value (h0_dom 0) = None
   \<and> accepts 3 0 (NotF (MV 0)) h0_dom
       = Some (True, h0_dom(0 := (h0_dom 0)\<lparr>mv_value := Some Bot\<rparr>))
   \<and> Metavar_eq 3 0 (NotF (MV 0)) h0_dom
       = Some (False, h0_dom(0 := (h0_dom 0)\<lparr>mv_value := Some Bot\<rparr>))
   \<and> py_eq 4 (MV 0) (NotF (MV 0)) h0_dom
       = Some (False, h0_dom(0 := (h0_dom 0)\<lparr>mv_value := Some Bot\<rparr>))"
  by (simp add: eval_nat_numeral accepts_def eq_fields_def h0_dom_def h0_def)

text \<open>
  C10 (amended). Let \<open>m\<close> be a metavariable with value \<^verbatim>\<open>None\<close> and \<open>x\<close> an object
  that the domain test of \<open>m\<close> accepts, leaving the store \<open>h1\<close> in which \<open>m\<close> still has
  no value (the test runs \<^verbatim>\<open>==\<close> on the items of the domain and may itself bind
  metavariables). Then \<^verbatim>\<open>m == x\<close> returns \<^verbatim>\<open>True\<close> and the store after it is \<open>h1\<close> with
  \<open>m\<close> bound to \<open>x\<close>, which differs from the store before; the same happens when \<open>m\<close> is
  the right operand of a dataclass object (the reflected call). When \<open>m\<close> has no
  domain, or neither \<open>x\<close> nor an item of the domain holds a metavariable, \<open>h1\<close> is the
  store before the comparison, so that the binding of \<open>m\<close> is the only change. On
  objects without metavariables \<^verbatim>\<open>==\<close> is a pure comparison: it leaves the store as it
  is and decides structural equality.
\<close>

theorem Metavar_eq_assigns:
  assumes "mv_value (h m) = None"
    and "accepts n m x h = Some (True, h1)"
    and "mv_value (h1 m) = None"
  shows "Metavar_eq n m x h = Some (True, h1(m := (h1 m)\<lparr>mv_value := Some x\<rparr>))
    \<and> py_eq (Suc n) (MV m) x h = Some (True, h1(m := (h1 m)\<lparr>mv_value := Some x\<rparr>))
    \<and> (\<not> is_Metavar x \<longrightarrow>
          py_eq (Suc n) x (MV m) h = Some (True, h1(m := (h1 m)\<lparr>mv_value := Some x\<rparr>)))
    \<and> h1(m := (h1 m)\<lparr>mv_value := Some x\<rparr>) \<noteq> h
    \<and> (mv_domain (h m) = [] \<or> (ground x \<and> list_all ground (mv_domain (h m))) \<longrightarrow> h1 = h)
    \<and> (\<forall>a b k r h'. ground a \<and> ground b \<and> py_eq k a b h = Some (r, h')
          \<longrightarrow> h' = h \<and> r = (a = b))"
proof -
  have "mv_value ((h1(m := (h1 m)\<lparr>mv_value := Some x\<rparr>)) m) \<noteq> mv_value (h m)"
    using assms(1) by simp
  then have changed: "h1(m := (h1 m)\<lparr>mv_value := Some x\<rparr>) \<noteq> h" by metis
  have direct: "Metavar_eq n m x h = Some (True, h1(m := (h1 m)\<lparr>mv_value := Some x\<rparr>))"
    using assms(2,3) by (simp only: Metavar_eq_accepts) simp
  then have left: "py_eq (Suc n) (MV m) x h = Some (True, h1(m := (h1 m)\<lparr>mv_value := Some x\<rparr>))"
    and right: "\<not> is_Metavar x \<longrightarrow>
      py_eq (Suc n) x (MV m) h = Some (True, h1(m := (h1 m)\<lparr>mv_value := Some x\<rparr>))"
    by simp_all
  have same: "mv_domain (h m) = [] \<or> (ground x \<and> list_all ground (mv_domain (h m))) \<longrightarrow> h1 = h"
  proof
    assume "mv_domain (h m) = [] \<or> (ground x \<and> list_all ground (mv_domain (h m)))"
    then show "h1 = h"
    proof
      assume "mv_domain (h m) = []"
      then show ?thesis using assms(2) by (simp add: accepts_def)
    next
      assume "ground x \<and> list_all ground (mv_domain (h m))"
      then show ?thesis using accepts_ground[OF _ _ assms(2)] by simp
    qed
  qed
  have pure: "\<forall>a b k r h'. ground a \<and> ground b \<and> py_eq k a b h = Some (r, h')
          \<longrightarrow> h' = h \<and> r = (a = b)"
    using py_eq_ground by blast
  show ?thesis using left direct right changed same pure by blast
qed

text \<open>
  \<open>?m0\<close> with the domain \<open>[f(?m2, a), f(b, c)]\<close> against \<open>f(b, c)\<close>: the membership test
  binds \<open>?m2\<close> to \<open>b\<close> while it compares the first item, finds the second item equal,
  and \<open>?m0\<close> is bound to \<open>f(b, c)\<close>. The structural comparison of \<open>\<not>?m1\<close> with \<open>\<not>\<bottom>\<close>
  binds \<open>?m1\<close>; that of \<open>\<not>\<bottom>\<close> with itself changes nothing.
\<close>

theorem Metavar_eq_assigns_witness:
  "mv_value (h2_dom 0) = None
   \<and> accepts 2 0 (Func ''f'' [Func ''b'' [], Func ''c'' []]) h2_dom
       = Some (True, h2_dom(2 := (h2_dom 2)\<lparr>mv_value := Some (Func ''b'' [])\<rparr>))
   \<and> Metavar_eq 2 0 (Func ''f'' [Func ''b'' [], Func ''c'' []]) h2_dom
       = Some (True, (h2_dom(2 := (h2_dom 2)\<lparr>mv_value := Some (Func ''b'' [])\<rparr>))
                       (0 := ((h2_dom(2 := (h2_dom 2)\<lparr>mv_value := Some (Func ''b'' [])\<rparr>)) 0)
                               \<lparr>mv_value := Some (Func ''f'' [Func ''b'' [], Func ''c'' []])\<rparr>))
   \<and> py_eq 3 (NotF (MV 1)) (NotF Bot) h0 = Some (True, h0(1 := (h0 1)\<lparr>mv_value := Some Bot\<rparr>))
   \<and> py_eq 3 (NotF Bot) (NotF Bot) h0 = Some (True, h0)"
proof -
  let ?x = "Func ''f'' [Func ''b'' [], Func ''c'' []]"
  let ?h1 = "h2_dom(2 := (h2_dom 2)\<lparr>mv_value := Some (Func ''b'' [])\<rparr>)"
  have a: "mv_value (h2_dom 0) = None" by (simp add: h2_dom_def h0_def)
  have b: "accepts 2 0 ?x h2_dom = Some (True, ?h1)"
    by (simp add: eval_nat_numeral accepts_def eq_fields_def h2_dom_def h0_def)
  have c: "mv_value (?h1 0) = None" by (simp add: h2_dom_def h0_def)
  have d: "Metavar_eq 2 0 ?x h2_dom = Some (True, ?h1(0 := (?h1 0)\<lparr>mv_value := Some ?x\<rparr>))"
    using Metavar_eq_assigns[OF a b c] by (rule conjunct1)
  have e: "py_eq 3 (NotF (MV 1)) (NotF Bot) h0 = Some (True, h0(1 := (h0 1)\<lparr>mv_value := Some Bot\<rparr>))"
    by (simp add: eval_nat_numeral eq_fields_def h0_def)
  have f: "py_eq 3 (NotF Bot) (NotF Bot) h0 = Some (True, h0)"
    by (simp add: eval_nat_numeral eq_fields_def)
  show ?thesis using a b d e f by (intro conjI)
qed


section \<open>Theorems: unification\<close>

















section \<open>Theorems: substitution\<close>

lemma gen_state_add: "gen_state gen (gen_state gen g j) k = gen_state gen g (j + k)"
  by (simp add: gen_state_def funpow_add add.commute[of j k])

lemma gen_state_0: "gen_state gen g 0 = g"
  by (simp add: gen_state_def)

lemma gen_state_1: "gen_state gen g (Suc 0) = snd (gen g)"
  by (simp add: gen_state_def)

lemma gen_result_0: "gen_result gen g 0 = fst (gen g)"
  by (simp add: gen_result_def gen_state_def)

lemma gen_result_shift: "gen_result gen (gen_state gen g j) = (\<lambda>i. gen_result gen g (j + i))"
  by (rule ext) (simp add: gen_result_def gen_state_add)

lemma spec_replace_shift:
  "spec_replace t ignore r (j + k) f = spec_replace t ignore (\<lambda>i. r (j + i)) k f"
  "spec_replace_args t ignore r (j + k) fs = spec_replace_args t ignore (\<lambda>i. r (j + i)) k fs"
  by (induction t ignore r k f and t ignore r k fs arbitrary: and rule: spec_replace_spec_replace_args.induct)
     (simp_all add: add.assoc)

lemma spec_replace_shift0:
  "spec_replace t ignore (\<lambda>i. r (j + i)) 0 f = spec_replace t ignore r j f"
  "spec_replace_args t ignore (\<lambda>i. r (j + i)) 0 fs = spec_replace_args t ignore r j fs"
  using spec_replace_shift[of t ignore r j 0] by simp_all

lemma sub_term_spec_aux:
  "sub_term f t gen ignore g =
     (spec_replace t ignore (gen_result gen g) 0 f,
      gen_state gen g (spec_occurrences t ignore f))"
  "sub_term_args fs t gen ignore g =
     (spec_replace_args t ignore (gen_result gen g) 0 fs,
      gen_state gen g (sum_list (map (spec_occurrences t ignore) fs)))"
proof (induction f t gen ignore g and fs t gen ignore g
       rule: sub_term_sub_term_args.induct)
qed (auto simp add: gen_state_0 gen_state_1 gen_result_0 gen_state_add gen_result_shift
      spec_replace_shift0 split: prod.splits)

text \<open>
  C8. For a target \<open>t\<close> that is a variable or a constant, \<^verbatim>\<open>sub_term\<close> returns the
  formula in which every occurrence of \<open>t\<close> that is free and not below an ignored
  quantifier is replaced by the result of a call of its own to \<^verbatim>\<open>gen\<close>, in order:
  the generator is called once for each such occurrence and not otherwise. A
  quantifier that binds \<open>t\<close>, and a quantifier whose variable satisfies \<^verbatim>\<open>ignore\<close>, are
  returned as they are, without a call to the generator.
\<close>

theorem sub_term_replaces_free_occurrences:
  assumes "is_atomic_term t" and "binds_variables f"
  shows "sub_term f t gen ignore g =
           (spec_replace t ignore (gen_result gen g) 0 f,
            gen_state gen g (spec_occurrences t ignore f))
    \<and> sub_term (Forall t f) t gen ignore g = (Forall t f, g)
    \<and> sub_term (Exists t f) t gen ignore g = (Exists t f, g)
    \<and> (\<forall>v. ignore v \<longrightarrow> sub_term (Forall v f) t gen ignore g = (Forall v f, g)
                      \<and> sub_term (Exists v f) t gen ignore g = (Exists v f, g))"
  by (simp add: sub_term_spec_aux gen_state_0)

theorem sub_term_replaces_free_occurrences_witness:
  "is_atomic_term (Var ''x'')
   \<and> binds_variables (And (Pred ''F'' [Var ''x'', Var ''x'']) (Forall (Var ''x'') (Pred ''G'' [Var ''x''])))
   \<and> sub_term (And (Pred ''F'' [Var ''x'', Var ''x'']) (Forall (Var ''x'') (Pred ''G'' [Var ''x''])))
        (Var ''x'') fresh_constant (\<lambda>v. False) 0
      = (And (Pred ''F'' [Func ''c'' [], Func ''ci'' []]) (Forall (Var ''x'') (Pred ''G'' [Var ''x''])), 2)"
proof -
  have a: "is_atomic_term (Var ''x'')" by simp
  have b: "binds_variables (And (Pred ''F'' [Var ''x'', Var ''x'']) (Forall (Var ''x'') (Pred ''G'' [Var ''x''])))"
    by simp
  have c: "sub_term (And (Pred ''F'' [Var ''x'', Var ''x'']) (Forall (Var ''x'') (Pred ''G'' [Var ''x''])))
        (Var ''x'') fresh_constant (\<lambda>v. False) 0
      = (And (Pred ''F'' [Func ''c'' [], Func ''ci'' []]) (Forall (Var ''x'') (Pred ''G'' [Var ''x''])), 2)"
    by (simp add: fresh_constant_def)
  show ?thesis
    using sub_term_replaces_free_occurrences[OF a b, of fresh_constant "\<lambda>v. False" 0] a b c
    by simp
qed


section \<open>Theorems: the memo table\<close>

text \<open>
  C5. \<^verbatim>\<open>_enter_state\<close> looks the memo table up at the key (set of the assumption
  formulas of the proof, goal); the cost is \<open>(ip_count, line_count)\<close>, compared
  lexicographically. Without an entry it stores the current cost and formula set and
  lets the search go on. With an entry it fails exactly when the current cost is at
  least the stored one and the current formula set is included in the stored one, and
  then leaves the table as it is; otherwise it goes on and stores the smaller of the
  two costs and, of the two formula sets, the stored one if it properly includes the
  current one and the current one if not. Only the entry of this key changes.
\<close>

theorem enter_state_dominance:
  fixes p :: pobj and seen :: memo
  defines "key \<equiv> (set (assumptions p), goal p)"
      and "cost \<equiv> (ip_count p, line_count p)"
      and "fs \<equiv> formulas p"
  shows "(seen key = None \<longrightarrow> enter_state p seen = (True, seen(key \<mapsto> (cost, fs))))
    \<and> (\<forall>prev_cost prev_formulas. seen key = Some (prev_cost, prev_formulas) \<longrightarrow>
          (fst (enter_state p seen) = False \<longleftrightarrow> cost \<ge> prev_cost \<and> fs \<subseteq> prev_formulas)
        \<and> (cost \<ge> prev_cost \<and> fs \<subseteq> prev_formulas \<longrightarrow> enter_state p seen = (False, seen))
        \<and> (\<not> (cost \<ge> prev_cost \<and> fs \<subseteq> prev_formulas) \<longrightarrow>
              enter_state p seen =
                (True, seen(key \<mapsto> (min cost prev_cost,
                                     if fs \<subseteq> prev_formulas then prev_formulas else fs))))
        \<and> (cost \<ge> prev_cost \<longleftrightarrow>
              fst prev_cost < ip_count p
              \<or> (fst prev_cost = ip_count p \<and> snd prev_cost \<le> line_count p)))"
  unfolding key_def cost_def fs_def
  by (auto simp add: enter_state_def Let_def min_def)


text \<open>
  The proof with the one premise \<open>A\<close> and the goal \<open>A\<close>: it is dominated by an entry
  of cost \<open>(0, 1)\<close> with the formulas \<open>{A}\<close>, and not by an entry of cost \<open>(0, 5)\<close>
  without formulas, which it replaces by the cost \<open>(0, 1)\<close> and the formulas \<open>{A}\<close>.
\<close>

theorem enter_state_dominance_witness:
  "enter_state (Proof 0 [Line 1 (Pred ''A'' []) Rule_PR []] (Pred ''A'' []))
     [({Pred ''A'' []}, Pred ''A'' []) \<mapsto> ((0, 1), {Pred ''A'' []})]
     = (False, [({Pred ''A'' []}, Pred ''A'' []) \<mapsto> ((0, 1), {Pred ''A'' []})])
   \<and> enter_state (Proof 0 [Line 1 (Pred ''A'' []) Rule_PR []] (Pred ''A'' []))
     [({Pred ''A'' []}, Pred ''A'' []) \<mapsto> ((0, 5), {})]
     = (True, [({Pred ''A'' []}, Pred ''A'' []) \<mapsto> ((0, 1), {Pred ''A'' []})])"
proof -
  let ?p = "Proof 0 [Line 1 (Pred ''A'' []) Rule_PR []] (Pred ''A'' [])"
  have k: "(set (assumptions ?p), goal ?p) = ({Pred ''A'' []}, Pred ''A'' [])"
    and c: "(ip_count ?p, line_count ?p) = (0, 1)"
    and f: "formulas ?p = {Pred ''A'' []}"
    by (simp_all add: assumptions_def is_assumption_def formulas_def)
  show ?thesis
    using enter_state_dominance[where p = "?p"
            and seen = "[({Pred ''A'' []}, Pred ''A'' []) \<mapsto> ((0, 1), {Pred ''A'' []})]"]
          enter_state_dominance[where p = "?p"
            and seen = "[({Pred ''A'' []}, Pred ''A'' []) \<mapsto> ((0, 5), {})]"]
    unfolding k c f by (simp add: min_def)
qed

end
